theory Spec2Isabelle
  imports Main
begin

section \<open>Python built-ins used by the assembler\<close>

text \<open>
  The assembler of \<^verbatim>\<open>src/pulumi/containers/ecs_service.py\<close> uses three pieces of
  Python that are not its own: \<^verbatim>\<open>str.replace\<close> with one-character arguments,
  \<^verbatim>\<open>str\<close> on an integer, and \<^verbatim>\<open>json.dumps\<close> with its default arguments.
  A Python string is modelled as a \<open>string\<close> whose characters are code points below 256.
\<close>

definition str_replace :: "char \<Rightarrow> char \<Rightarrow> string \<Rightarrow> string" where
  "str_replace old new s = map (\<lambda>c. if c = old then new else c) s"

definition hexdigit :: "nat \<Rightarrow> char" where
  "hexdigit n = ''0123456789abcdef'' ! n"

function str_nat :: "nat \<Rightarrow> string" where
  "str_nat n = (if n < 10 then [hexdigit n] else str_nat (n div 10) @ [hexdigit (n mod 10)])"
  by pat_completeness auto
termination
  by (relation "measure id") auto

declare str_nat.simps [simp del]

definition str :: "int \<Rightarrow> string" where
  "str i = (if i < 0 then CHR ''-'' # str_nat (nat (- i)) else str_nat (nat i))"

text \<open>
  \<^verbatim>\<open>json.dumps\<close> with the defaults: \<^verbatim>\<open>ensure_ascii=True\<close>, item separator
  \<^verbatim>\<open>", "\<close>, key separator \<^verbatim>\<open>": "\<close>. Every character outside the printable ASCII
  range is written as a four-digit lower-case escape, the quote and the backslash are
  backslash-escaped, and five control characters have short escapes.
\<close>

definition escape_char :: "char \<Rightarrow> string" where
  "escape_char c =
     (if c = CHR 0x22 then [CHR 0x5C, CHR 0x22]
      else if c = CHR 0x5C then [CHR 0x5C, CHR 0x5C]
      else if c = CHR 0x0A then [CHR 0x5C, CHR ''n'']
      else if c = CHR 0x0D then [CHR 0x5C, CHR ''r'']
      else if c = CHR 0x09 then [CHR 0x5C, CHR ''t'']
      else if c = CHR 0x08 then [CHR 0x5C, CHR ''b'']
      else if c = CHR 0x0C then [CHR 0x5C, CHR ''f'']
      else if (of_char c :: nat) < 32 \<or> 126 < (of_char c :: nat)
        then [CHR 0x5C, CHR ''u'', CHR ''0'', CHR ''0'',
              hexdigit ((of_char c :: nat) div 16), hexdigit ((of_char c :: nat) mod 16)]
      else [c])"

definition encode_basestring_ascii :: "string \<Rightarrow> string" where
  "encode_basestring_ascii s = [CHR 0x22] @ concat (map escape_char s) @ [CHR 0x22]"

datatype json =
    JBool bool
  | JInt int
  | JStr string
  | JList "json list"
  | JDict "(string \<times> json) list"

fun join :: "string \<Rightarrow> string list \<Rightarrow> string" where
  "join sep [] = []"
| "join sep [x] = x"
| "join sep (x # y # ys) = x @ sep @ join sep (y # ys)"

fun json_dumps :: "json \<Rightarrow> string" where
  "json_dumps (JBool b) = (if b then ''true'' else ''false'')"
| "json_dumps (JInt i) = str i"
| "json_dumps (JStr s) = encode_basestring_ascii s"
| "json_dumps (JList xs) = ''['' @ join '', '' (map json_dumps xs) @ '']''"
| "json_dumps (JDict kvs) =
     ''{'' @ join '', ''
        (map (\<lambda>(k, v). encode_basestring_ascii k @ '': '' @ json_dumps v) kvs) @ ''}''"

text \<open>Reading a key of a JSON object (the first binding wins, none for a non-object).\<close>

fun json_get :: "json \<Rightarrow> string \<Rightarrow> json option" where
  "json_get (JDict kvs) k = map_of kvs k"
| "json_get _ k = None"


section \<open>Inputs of the assembler\<close>

text \<open>
  Modelled from the spec: \<^verbatim>\<open>input_schemas.SubnetType\<close>, \<^verbatim>\<open>input_schemas.DjangoServiceCfg\<close>
  and \<^verbatim>\<open>networking.Networking\<close> are imported by the source file and declared elsewhere.
  The fields are the ones the source reads (\<^verbatim>\<open>service_name\<close>, \<^verbatim>\<open>django_project\<close>,
  \<^verbatim>\<open>backend_cfg.container_port\<close>, \<^verbatim>\<open>backend_cfg.lb_port\<close>, \<^verbatim>\<open>backend_cfg.cpu\<close>,
  \<^verbatim>\<open>backend_cfg.memory\<close>, \<^verbatim>\<open>backend_cfg.desired_count\<close>); the spec's data model makes the
  ports, CPU, memory and replica count numbers and the names strings, and its network
  provider returns a VPC identifier string and a sequence of subnet identifier strings.
\<close>

datatype SubnetType = PUBLIC | PRIVATE

record Networking =
  get_vpc_id :: string
  get_subnet_ids :: "SubnetType \<Rightarrow> string list"

record BackendCfg =
  container_port :: int
  lb_port :: int
  cpu :: int
  memory :: int
  desired_count :: int

record DjangoServiceCfg =
  service_name :: string
  django_project :: string
  backend_cfg :: BackendCfg

text \<open>
  An \<^verbatim>\<open>iam.Role\<close> is declared by the caller; the assembler reads only its \<^verbatim>\<open>arn\<close>.
\<close>

record Role =
  role_resource_name :: string

section \<open>Pending identifiers and deferred values\<close>

text \<open>
  An attribute such as \<^verbatim>\<open>lb_sg.id\<close> is not a value when the program runs: it is a
  reference to an identifier the provisioning engine assigns later. A reference names
  the resource by its logical name (the first argument of its constructor) and the
  attribute read. \<open>External\<close> stands for the identifiers that the collaborators
  (image publisher, data store) wait for.
\<close>

datatype pending =
    SecurityGroup_id string
  | LoadBalancer_arn string
  | TargetGroup_arn string
  | LogGroup_name string
  | Cluster_id string
  | TaskDefinition_arn string
  | Role_arn string
  | External string

text \<open>
  A \<open>resolution\<close> is what the engine has assigned so far. A \<^verbatim>\<open>pulumi.Output\<close> is a
  value computed from it, absent (\<open>None\<close>) until everything it reads is assigned.
  \<^verbatim>\<open>Output.all(image_uri=..., log_group_name=..., host=...)\<close> gives the dictionary of the
  three values once all three are present; the dictionary has exactly these three keys
  and is a record here. \<^verbatim>\<open>.apply(f)\<close> maps \<open>f\<close> over a present value.
\<close>

type_synonym resolution = "pending \<Rightarrow> string option"

type_synonym 'a Output = "resolution \<Rightarrow> 'a option"

definition output_of :: "pending \<Rightarrow> string Output" where
  "output_of p = (\<lambda>r. r p)"

record template_args =
  args_image_uri :: string
  args_log_group_name :: string
  args_host :: string

definition Output_all :: "string Output \<Rightarrow> string Output \<Rightarrow> string Output \<Rightarrow> template_args Output" where
  "Output_all image_uri log_group_name host =
     (\<lambda>r. case image_uri r of
            None \<Rightarrow> None
          | Some i \<Rightarrow>
            (case log_group_name r of
               None \<Rightarrow> None
             | Some l \<Rightarrow>
               (case host r of
                  None \<Rightarrow> None
                | Some h \<Rightarrow>
                  Some \<lparr>args_image_uri = i, args_log_group_name = l, args_host = h\<rparr>)))"

definition Output_apply :: "'a Output \<Rightarrow> ('a \<Rightarrow> 'b) \<Rightarrow> 'b Output" where
  "Output_apply out f = (\<lambda>r. map_option f (out r))"

section \<open>Resource declarations\<close>

text \<open>
  One record per resource constructor the source calls, one field per argument it passes
  (prefixed, since record fields share one name space). A keyword the source leaves out
  of \<^verbatim>\<open>SecurityGroupIngressArgs\<close> is \<open>None\<close>.
\<close>

record SecurityGroupIngressArgs =
  ingress_from_port :: int
  ingress_to_port :: int
  ingress_protocol :: string
  ingress_cidr_blocks :: "string list option"
  ingress_security_groups :: "pending list option"

record SecurityGroupEgressArgs =
  egress_from_port :: int
  egress_to_port :: int
  egress_protocol :: string
  egress_cidr_blocks :: "string list"

record SecurityGroup =
  sg_resource_name :: string
  sg_name :: string
  sg_description :: string
  sg_vpc_id :: string
  sg_ingress :: "SecurityGroupIngressArgs list"
  sg_egress :: "SecurityGroupEgressArgs list"
  sg_tags :: "(string \<times> string) list"

record LoadBalancer =
  lb_resource_name :: string
  lb_name :: string
  lb_load_balancer_type :: string
  lb_internal :: bool
  lb_security_groups :: "pending list"
  lb_subnets :: "string list"

record TargetGroupHealthCheckArgs =
  hc_path :: string
  hc_port :: string
  hc_healthy_threshold :: int
  hc_unhealthy_threshold :: int
  hc_timeout :: int
  hc_interval :: int
  hc_matcher :: string

record TargetGroup =
  tg_resource_name :: string
  tg_name :: string
  tg_port :: int
  tg_protocol :: string
  tg_vpc_id :: string
  tg_target_type :: string
  tg_health_check :: TargetGroupHealthCheckArgs

record ListenerDefaultActionArgs =
  action_type :: string
  action_target_group_arn :: pending

record Listener =
  listener_resource_name :: string
  listener_load_balancer_arn :: pending
  listener_port :: int
  listener_default_actions :: "ListenerDefaultActionArgs list"

record LogGroup =
  lg_resource_name :: string
  lg_name :: string
  lg_retention_in_days :: int

record Cluster =
  cluster_resource_name :: string
  cluster_name :: string

record TaskDefinition =
  td_resource_name :: string
  td_family :: string
  td_network_mode :: string
  td_requires_compatibilities :: "string list"
  td_cpu :: int
  td_memory :: int
  td_execution_role_arn :: pending
  td_task_role_arn :: pending
  td_container_definitions :: "string Output"

record ServiceNetworkConfigurationArgs =
  nc_subnets :: "string list"
  nc_security_groups :: "pending list"
  nc_assign_public_ip :: bool

record ServiceLoadBalancerArgs =
  slb_target_group_arn :: pending
  slb_container_name :: string
  slb_container_port :: int

record Service =
  svc_resource_name :: string
  svc_name :: string
  svc_cluster :: pending
  svc_task_definition :: pending
  svc_launch_type :: string
  svc_desired_count :: int
  svc_network_configuration :: ServiceNetworkConfigurationArgs
  svc_load_balancers :: "ServiceLoadBalancerArgs list"

text \<open>
  Modelled from the spec: the classes \<^verbatim>\<open>dbs.rds.RDS\<close>, \<^verbatim>\<open>.repository.Repository\<close> and
  \<^verbatim>\<open>.image.Image\<close> are collaborators declared outside the source file. Each is
  the record of the arguments its constructor receives; \<open>img_repository\<close> holds the
  repository whose \<^verbatim>\<open>get_repository()\<close> is handed to the image. What their methods return
  is not known, so \<^verbatim>\<open>Image.push_image\<close> and \<^verbatim>\<open>RDS.get_host\<close> are parameters: by the spec
  both give a deferred string (a pullable image reference, a connection host).
\<close>

record RDS =
  rds_networking :: Networking
  rds_sg :: SecurityGroup
  rds_cfg :: DjangoServiceCfg

record Repository =
  repo_name :: string

record Image =
  img_name :: string
  img_project :: string
  img_repository :: Repository

record collaborators =
  push_image :: "Image \<Rightarrow> string \<Rightarrow> string Output"
  get_host :: "RDS \<Rightarrow> string Output"

text \<open>
  Constructing a resource registers it with the engine. The engine's state is the list
  of declarations in the order they were made; a call of \<^verbatim>\<open>push_image\<close> is recorded
  with its version tag.
\<close>

datatype resource =
    Res_SecurityGroup SecurityGroup
  | Res_LoadBalancer LoadBalancer
  | Res_TargetGroup TargetGroup
  | Res_Listener Listener
  | Res_RDS RDS
  | Res_Repository Repository
  | Res_Image Image
  | Call_push_image Image string
  | Res_LogGroup LogGroup
  | Res_Cluster Cluster
  | Res_TaskDefinition TaskDefinition
  | Res_Service Service

type_synonym engine = "resource list"

definition register :: "resource \<Rightarrow> engine \<Rightarrow> engine" where
  "register res eng = eng @ [res]"

section \<open>The assembler\<close>

datatype error = KeyError string | AttributeError string

text \<open>
  The object \<^verbatim>\<open>self\<close>. The attributes \<^verbatim>\<open>ecs_sg\<close>, \<^verbatim>\<open>django_tg\<close> and \<^verbatim>\<open>db\<close> do not
  exist until the method that assigns them has run; reading one before that raises
  \<^verbatim>\<open>AttributeError\<close>.
\<close>

record ECSService =
  networking :: Networking
  django_srv_cfg :: DjangoServiceCfg
  roles :: "string \<Rightarrow> Role option"
  ecs_sg :: "SecurityGroup option"
  django_tg :: "TargetGroup option"
  db :: "RDS option"

definition create_networking :: "ECSService \<Rightarrow> engine \<Rightarrow> ECSService \<times> engine" where
  "create_networking self eng =
    (let SERVICE_NAME = str_replace CHR ''_'' CHR ''-'' (service_name (django_srv_cfg self));
         LB_PORT = lb_port (backend_cfg (django_srv_cfg self));
         lb_sg = \<lparr>
           sg_resource_name = SERVICE_NAME @ ''-lb-sg'',
           sg_name = SERVICE_NAME @ ''-lb-sg'',
           sg_description = ''Controls access to the ALB'',
           sg_vpc_id = get_vpc_id (networking self),
           sg_ingress = [\<lparr>
             ingress_from_port = LB_PORT,
             ingress_to_port = LB_PORT,
             ingress_protocol = ''tcp'',
             ingress_cidr_blocks = Some [''0.0.0.0/0''],
             ingress_security_groups = None\<rparr>],
           sg_egress = [\<lparr>
             egress_from_port = 0,
             egress_to_port = 0,
             egress_protocol = ''-1'',
             egress_cidr_blocks = [''0.0.0.0/0'']\<rparr>],
           sg_tags = [(''Name'', SERVICE_NAME @ ''-lb-sg'')]\<rparr>;
         eng = register (Res_SecurityGroup lb_sg) eng;
         new_ecs_sg = \<lparr>
           sg_resource_name = SERVICE_NAME @ ''-sg'',
           sg_name = SERVICE_NAME @ ''-ecs-sg'',
           sg_description = ''Controls access to the ECS Service'',
           sg_vpc_id = get_vpc_id (networking self),
           sg_ingress = [\<lparr>
             ingress_from_port = 0,
             ingress_to_port = 0,
             ingress_protocol = ''-1'',
             ingress_cidr_blocks = None,
             ingress_security_groups = Some [SecurityGroup_id (sg_resource_name lb_sg)]\<rparr>],
           sg_egress = [\<lparr>
             egress_from_port = 0,
             egress_to_port = 0,
             egress_protocol = ''-1'',
             egress_cidr_blocks = [''0.0.0.0/0'']\<rparr>],
           sg_tags = [(''Name'', SERVICE_NAME @ ''-ecs-sg'')]\<rparr>;
         eng = register (Res_SecurityGroup new_ecs_sg) eng;
         self = self\<lparr>ecs_sg := Some new_ecs_sg\<rparr>;
         django_lb = \<lparr>
           lb_resource_name = SERVICE_NAME @ ''-lb'',
           lb_name = SERVICE_NAME @ ''-lb'',
           lb_load_balancer_type = ''application'',
           lb_internal = False,
           lb_security_groups = [SecurityGroup_id (sg_resource_name lb_sg)],
           lb_subnets = get_subnet_ids (networking self) PUBLIC\<rparr>;
         eng = register (Res_LoadBalancer django_lb) eng;
         new_django_tg = \<lparr>
           tg_resource_name = SERVICE_NAME @ ''-service-tg'',
           tg_name = SERVICE_NAME @ ''-service-tg'',
           tg_port = LB_PORT,
           tg_protocol = ''HTTP'',
           tg_vpc_id = get_vpc_id (networking self),
           tg_target_type = ''ip'',
           tg_health_check = \<lparr>
             hc_path = ''/ping/'',
             hc_port = ''traffic-port'',
             hc_healthy_threshold = 5,
             hc_unhealthy_threshold = 2,
             hc_timeout = 2,
             hc_interval = 5,
             hc_matcher = ''200''\<rparr>\<rparr>;
         eng = register (Res_TargetGroup new_django_tg) eng;
         self = self\<lparr>django_tg := Some new_django_tg\<rparr>;
         eng = register (Res_Listener \<lparr>
           listener_resource_name = SERVICE_NAME @ ''-lb-listener'',
           listener_load_balancer_arn = LoadBalancer_arn (lb_resource_name django_lb),
           listener_port = LB_PORT,
           listener_default_actions = [\<lparr>
             action_type = ''forward'',
             action_target_group_arn = TargetGroup_arn (tg_resource_name new_django_tg)\<rparr>]\<rparr>) eng
     in (self, eng))"

definition create_db :: "ECSService \<Rightarrow> engine \<Rightarrow> (error + ECSService) \<times> engine" where
  "create_db self eng =
    (case ecs_sg self of
       None \<Rightarrow> (Inl (AttributeError ''ecs_sg''), eng)
     | Some sg \<Rightarrow>
         (let new_db = \<lparr>rds_networking = networking self, rds_sg = sg,
                         rds_cfg = django_srv_cfg self\<rparr>
          in (Inr (self\<lparr>db := Some new_db\<rparr>), register (Res_RDS new_db) eng)))"

text \<open>
  The local value \<^verbatim>\<open>container_definitions_template\<close> of \<^verbatim>\<open>create_ecs_service\<close> is
  \<^verbatim>\<open>pulumi.Output.all(...).apply(lambda args: json.dumps([...]))\<close>. The function passed to
  \<^verbatim>\<open>.apply\<close> closes over \<^verbatim>\<open>SERVICE_NAME\<close> and \<^verbatim>\<open>CONT_PORT\<close>; it comes first, then
  the deferred value built from it.
\<close>

definition container_definitions_lambda :: "string \<Rightarrow> int \<Rightarrow> template_args \<Rightarrow> string" where
  "container_definitions_lambda SERVICE_NAME CONT_PORT args =
     json_dumps (JList [
       JDict [
         (''name'', JStr SERVICE_NAME),
         (''image'', JStr (args_image_uri args)),
         (''essential'', JBool True),
         (''cpu'', JInt 10),
         (''memory'', JInt 512),
         (''portMappings'', JList [
            JDict [(''containerPort'', JInt CONT_PORT), (''protocol'', JStr ''tcp'')]]),
         (''command'', JList [JStr SERVICE_NAME, JStr (str CONT_PORT)]),
         (''environment'', JList [
            JDict [(''name'', JStr ''ENVIRONMENT''), (''value'', JStr ''PROD'')],
            JDict [(''name'', JStr ''DB_HOST''), (''value'', JStr (args_host args))]]),
         (''logConfiguration'', JDict [
            (''logDriver'', JStr ''awslogs''),
            (''options'', JDict [
               (''awslogs-group'', JStr (args_log_group_name args)),
               (''awslogs-region'', JStr ''eu-west-1''),
               (''awslogs-stream-prefix'', JStr (SERVICE_NAME @ ''-log-stream''))])])]])"

definition container_definitions_template ::
  "string Output \<Rightarrow> string Output \<Rightarrow> string Output \<Rightarrow> string \<Rightarrow> int \<Rightarrow> string Output" where
  "container_definitions_template image_uri log_group_name host SERVICE_NAME CONT_PORT =
     Output_apply (Output_all image_uri log_group_name host)
       (container_definitions_lambda SERVICE_NAME CONT_PORT)"

definition create_ecs_service ::
  "collaborators \<Rightarrow> ECSService \<Rightarrow> engine \<Rightarrow> (error + ECSService) \<times> engine" where
  "create_ecs_service col self eng =
    (let SERVICE_NAME = service_name (django_srv_cfg self);
         CONT_PORT = container_port (backend_cfg (django_srv_cfg self));
         repository = \<lparr>repo_name = SERVICE_NAME @ ''-repository''\<rparr>;
         eng = register (Res_Repository repository) eng;
         image = \<lparr>img_name = SERVICE_NAME,
                  img_project = django_project (django_srv_cfg self),
                  img_repository = repository\<rparr>;
         eng = register (Res_Image image) eng;
         image_uri = push_image col image ''0.0.1'';
         eng = register (Call_push_image image ''0.0.1'') eng;
         django_log_group = \<lparr>
           lg_resource_name = SERVICE_NAME @ ''-log-group'',
           lg_name = ''/ecs/'' @ SERVICE_NAME,
           lg_retention_in_days = 30\<rparr>;
         eng = register (Res_LogGroup django_log_group) eng;
         ecs_cluster = \<lparr>
           cluster_resource_name = SERVICE_NAME @ ''-cluster'',
           cluster_name = SERVICE_NAME @ ''-cluster''\<rparr>;
         eng = register (Res_Cluster ecs_cluster) eng
     in case db self of
          None \<Rightarrow> (Inl (AttributeError ''db''), eng)
        | Some the_db \<Rightarrow>
     (let the_template =
            container_definitions_template image_uri
              (output_of (LogGroup_name (lg_resource_name django_log_group)))
              (get_host col the_db) SERVICE_NAME CONT_PORT
      in case roles self ''ecs_execution_role'' of
           None \<Rightarrow> (Inl (KeyError ''ecs_execution_role''), eng)
         | Some execution_role \<Rightarrow>
      (case roles self ''ecs_task_role'' of
           None \<Rightarrow> (Inl (KeyError ''ecs_task_role''), eng)
         | Some task_role \<Rightarrow>
      (let ecs_task_definition = \<lparr>
             td_resource_name = SERVICE_NAME @ ''-tf'',
             td_family = SERVICE_NAME,
             td_network_mode = ''awsvpc'',
             td_requires_compatibilities = [''FARGATE''],
             td_cpu = cpu (backend_cfg (django_srv_cfg self)),
             td_memory = memory (backend_cfg (django_srv_cfg self)),
             td_execution_role_arn = Role_arn (role_resource_name execution_role),
             td_task_role_arn = Role_arn (role_resource_name task_role),
             td_container_definitions = the_template\<rparr>;
           eng = register (Res_TaskDefinition ecs_task_definition) eng
       in case ecs_sg self of
            None \<Rightarrow> (Inl (AttributeError ''ecs_sg''), eng)
          | Some the_ecs_sg \<Rightarrow>
       (case django_tg self of
            None \<Rightarrow> (Inl (AttributeError ''django_tg''), eng)
          | Some the_django_tg \<Rightarrow>
              (Inr self, register (Res_Service \<lparr>
                 svc_resource_name = SERVICE_NAME @ ''-service'',
                 svc_name = SERVICE_NAME @ ''-service'',
                 svc_cluster = Cluster_id (cluster_resource_name ecs_cluster),
                 svc_task_definition =
                   TaskDefinition_arn (td_resource_name ecs_task_definition),
                 svc_launch_type = ''FARGATE'',
                 svc_desired_count = desired_count (backend_cfg (django_srv_cfg self)),
                 svc_network_configuration = \<lparr>
                   nc_subnets = get_subnet_ids (networking self) PRIVATE,
                   nc_security_groups = [SecurityGroup_id (sg_resource_name the_ecs_sg)],
                   nc_assign_public_ip = True\<rparr>,
                 svc_load_balancers = [\<lparr>
                   slb_target_group_arn = TargetGroup_arn (tg_resource_name the_django_tg),
                   slb_container_name = SERVICE_NAME,
                   slb_container_port = CONT_PORT\<rparr>]\<rparr>) eng))))))"

definition create_resources ::
  "collaborators \<Rightarrow> ECSService \<Rightarrow> engine \<Rightarrow> (error + ECSService) \<times> engine" where
  "create_resources col self eng =
    (case create_networking self eng of
       (self, eng) \<Rightarrow>
         (case create_db self eng of
            (Inl e, eng) \<Rightarrow> (Inl e, eng)
          | (Inr self, eng) \<Rightarrow> create_ecs_service col self eng))"

text \<open>\<^verbatim>\<open>ECSService.__init__\<close>: the three attributes are stored and the resources created.\<close>

definition ECSService_init ::
  "collaborators \<Rightarrow> Networking \<Rightarrow> DjangoServiceCfg \<Rightarrow> (string \<Rightarrow> Role option) \<Rightarrow> engine
     \<Rightarrow> (error + ECSService) \<times> engine" where
  "ECSService_init col the_networking the_cfg the_roles eng =
     create_resources col
       \<lparr>networking = the_networking, django_srv_cfg = the_cfg, roles = the_roles,
        ecs_sg = None, django_tg = None, db = None\<rparr> eng"

section \<open>Reading the declarations\<close>

text \<open>
  The names a networking resource carries (logical name, \<^verbatim>\<open>name=\<close> and the
  \<^verbatim>\<open>Name\<close> tag), the names a runtime-unit resource carries (logical name, \<^verbatim>\<open>name=\<close>
  or \<^verbatim>\<open>family=\<close>, and the container name of a load-balancer binding), and the version
  tags handed to \<^verbatim>\<open>push_image\<close>.
\<close>

fun networking_names :: "resource \<Rightarrow> string list" where
  "networking_names (Res_SecurityGroup sg) =
     [sg_resource_name sg, sg_name sg] @ map snd (sg_tags sg)"
| "networking_names (Res_LoadBalancer b) = [lb_resource_name b, lb_name b]"
| "networking_names (Res_TargetGroup g) = [tg_resource_name g, tg_name g]"
| "networking_names (Res_Listener l) = [listener_resource_name l]"
| "networking_names _ = []"

fun runtime_names :: "resource \<Rightarrow> string list" where
  "runtime_names (Res_Repository p) = [repo_name p]"
| "runtime_names (Res_LogGroup g) = [lg_resource_name g, lg_name g]"
| "runtime_names (Res_Cluster k) = [cluster_resource_name k, cluster_name k]"
| "runtime_names (Res_TaskDefinition d) = [td_resource_name d, td_family d]"
| "runtime_names (Res_Service s) =
     [svc_resource_name s, svc_name s] @ map slb_container_name (svc_load_balancers s)"
| "runtime_names _ = []"

fun pushed_versions :: "resource \<Rightarrow> string list" where
  "pushed_versions (Call_push_image i v) = [v]"
| "pushed_versions _ = []"

section \<open>Concrete inputs\<close>

definition example_networking :: Networking where
  "example_networking =
     \<lparr>get_vpc_id = ''vpc-1'',
      get_subnet_ids = (\<lambda>k. case k of PUBLIC \<Rightarrow> [''subnet-a'', ''subnet-b'']
                                      | PRIVATE \<Rightarrow> [''subnet-c''])\<rparr>"

definition example_cfg :: DjangoServiceCfg where
  "example_cfg =
     \<lparr>service_name = ''django_app'', django_project = ''mysite'',
      backend_cfg = \<lparr>container_port = 8000, lb_port = 8080, cpu = 256, memory = 512,
                     desired_count = 2\<rparr>\<rparr>"

text \<open>A configuration with a zero load-balancer port, a negative container port and no CPU or memory.\<close>

definition malformed_cfg :: DjangoServiceCfg where
  "malformed_cfg =
     \<lparr>service_name = ''django_app'', django_project = ''mysite'',
      backend_cfg = \<lparr>container_port = - 1, lb_port = 0, cpu = 0, memory = 0,
                     desired_count = 2\<rparr>\<rparr>"

definition example_roles :: "string \<Rightarrow> Role option" where
  "example_roles =
     [''ecs_execution_role'' \<mapsto> \<lparr>role_resource_name = ''execution-role''\<rparr>,
      ''ecs_task_role'' \<mapsto> \<lparr>role_resource_name = ''task-role''\<rparr>]"

definition example_collaborators :: collaborators where
  "example_collaborators =
     \<lparr>push_image = (\<lambda>i v. output_of (External (''image:'' @ img_name i @ '':'' @ v))),
      get_host = (\<lambda>d. output_of (External ''db-host''))\<rparr>"

text \<open>Two states of the engine: only the image reference assigned, and everything assigned.\<close>

definition image_only :: resolution where
  "image_only = [External ''image:django_app:0.0.1'' \<mapsto> ''registry/django_app:0.0.1'']"

definition all_resolved :: resolution where
  "all_resolved =
     [External ''image:django_app:0.0.1'' \<mapsto> ''registry/django_app:0.0.1'',
      External ''db-host'' \<mapsto> ''db.internal'',
      LogGroup_name ''django_app-log-group'' \<mapsto> ''/ecs/django_app'']"

section \<open>Evaluating the built-ins\<close>

lemma str_nat_small: "n < 10 \<Longrightarrow> str_nat n = [hexdigit n]"
  by (simp add: str_nat.simps)

lemma str_nat_large: "\<not> n < 10 \<Longrightarrow> str_nat n = str_nat (n div 10) @ [hexdigit (n mod 10)]"
  by (subst str_nat.simps) simp

lemma str_replace_removes: "old \<noteq> new \<Longrightarrow> old \<notin> set (str_replace old new s)"
  by (auto simp: str_replace_def)

lemma example_roles_execution:
  "example_roles ''ecs_execution_role'' = Some \<lparr>role_resource_name = ''execution-role''\<rparr>"
  by (simp add: example_roles_def)

lemma example_roles_task:
  "example_roles ''ecs_task_role'' = Some \<lparr>role_resource_name = ''task-role''\<rparr>"
  by (simp add: example_roles_def)

lemma all_resolved_image:
  "output_of (External ''image:django_app:0.0.1'') all_resolved =
     Some ''registry/django_app:0.0.1''"
  by (simp add: output_of_def all_resolved_def)

lemma all_resolved_log_group:
  "output_of (LogGroup_name ''django_app-log-group'') all_resolved = Some ''/ecs/django_app''"
  by (simp add: output_of_def all_resolved_def)

lemma all_resolved_host:
  "output_of (External ''db-host'') all_resolved = Some ''db.internal''"
  by (simp add: output_of_def all_resolved_def)

section \<open>The assembler as a whole\<close>

lemmas assembler_defs = ECSService_init_def create_resources_def create_networking_def
  create_db_def create_ecs_service_def register_def Let_def

text \<open>
  The assembler only appends to the engine's list, and what it appends and returns does
  not depend on what the list held before. The role mapping decides between three runs:
  the first role name missing, the second missing, both present.
\<close>

lemma init_appends:
  "ECSService_init col n c r eng =
     (fst (ECSService_init col n c r []), eng @ snd (ECSService_init col n c r []))"
proof (cases "r ''ecs_execution_role''")
  case None
  then show ?thesis by (simp add: assembler_defs)
next
  case (Some e)
  show ?thesis
  proof (cases "r ''ecs_task_role''")
    case None
    with Some show ?thesis by (simp add: assembler_defs)
  next
    case (Some t)
    with \<open>r ''ecs_execution_role'' = Some e\<close> show ?thesis by (simp add: assembler_defs)
  qed
qed

text \<open>
  A role name missing from the mapping is the assembler's one error: \<^verbatim>\<open>KeyError\<close>, raised
  when the task definition's arguments are evaluated, after eleven declarations.
\<close>

lemma missing_execution_role:
  "r ''ecs_execution_role'' = None \<Longrightarrow>
   fst (ECSService_init col n c r eng) = Inl (KeyError ''ecs_execution_role'') \<and>
   length (snd (ECSService_init col n c r eng)) = length eng + 11"
  by (simp add: assembler_defs)

lemma missing_task_role:
  "r ''ecs_execution_role'' = Some e \<Longrightarrow> r ''ecs_task_role'' = None \<Longrightarrow>
   fst (ECSService_init col n c r eng) = Inl (KeyError ''ecs_task_role'') \<and>
   length (snd (ECSService_init col n c r eng)) = length eng + 11"
  by (simp add: assembler_defs)

text \<open>
  Claim C1 says that a configuration with a non-positive port (or CPU and memory outside
  the allowed pairs) makes the assembler signal a validation error before it declares
  anything. The source has no such check. On a configuration with load-balancer port 0
  and container port -1 the assembler raises nothing and makes all thirteen declarations
  (the last theorem of the three below). What holds instead (the first theorem): for
  every configuration, whatever its ports, CPU and memory, the assembler makes at least
  eleven declarations, the only errors it can raise are the two \<^verbatim>\<open>KeyError\<close>s for a missing
  role name, and with both role names present it raises nothing and makes thirteen.
\<close>

theorem init_without_validation:
  "length eng + 11 \<le> length (snd (ECSService_init col n c r eng)) \<and>
   (\<forall>x. fst (ECSService_init col n c r eng) = Inl x \<longrightarrow>
      x = KeyError ''ecs_execution_role'' \<or> x = KeyError ''ecs_task_role'') \<and>
   (r ''ecs_execution_role'' \<noteq> None \<and> r ''ecs_task_role'' \<noteq> None \<longrightarrow>
      \<not> isl (fst (ECSService_init col n c r eng)) \<and>
      length (snd (ECSService_init col n c r eng)) = length eng + 13)"
proof (cases "r ''ecs_execution_role''")
  case None
  then show ?thesis by (simp add: assembler_defs)
next
  case (Some e)
  show ?thesis
  proof (cases "r ''ecs_task_role''")
    case None
    with Some show ?thesis by (simp add: assembler_defs)
  next
    case (Some t)
    with \<open>r ''ecs_execution_role'' = Some e\<close> show ?thesis by (simp add: assembler_defs)
  qed
qed

theorem init_without_validation_witness:
  "lb_port (backend_cfg malformed_cfg) \<le> 0 \<and>
   example_roles ''ecs_execution_role'' \<noteq> None \<and> example_roles ''ecs_task_role'' \<noteq> None \<and>
   \<not> isl (fst (ECSService_init example_collaborators example_networking malformed_cfg
                 example_roles [])) \<and>
   length (snd (ECSService_init example_collaborators example_networking malformed_cfg
                 example_roles [])) = 13"
  using init_without_validation [of "[]" example_collaborators example_networking malformed_cfg
      example_roles]
  by (simp add: malformed_cfg_def example_roles_def)

theorem init_accepts_malformed:
  "lb_port (backend_cfg malformed_cfg) \<le> 0 \<and>
   container_port (backend_cfg malformed_cfg) \<le> 0 \<and>
   \<not> isl (fst (ECSService_init example_collaborators example_networking malformed_cfg
                 example_roles [])) \<and>
   length (snd (ECSService_init example_collaborators example_networking malformed_cfg
                 example_roles [])) = 13"
  by (simp add: assembler_defs malformed_cfg_def example_roles_def)

section \<open>Networking\<close>

text \<open>
  Claim C2: \<^verbatim>\<open>create_networking\<close> declares two security groups. The first, the load
  balancer's, has one ingress rule, TCP on \<^verbatim>\<open>lb_port\<close> from the CIDR 0.0.0.0/0 and no
  peer group, and one egress rule for all traffic. The second, the service's (stored in
  \<^verbatim>\<open>self.ecs_sg\<close>), has one ingress rule, any port and protocol, with no CIDR and the
  load balancer's group as its only source, and one egress rule for all traffic. The two
  groups have different logical names, so the reference names the first one only.
  This holds for every configuration.
\<close>

theorem security_perimeter:
  "\<exists>lb_sg svc_sg b g l self'.
     create_networking self eng =
       (self', eng @ [Res_SecurityGroup lb_sg, Res_SecurityGroup svc_sg, Res_LoadBalancer b,
                      Res_TargetGroup g, Res_Listener l]) \<and>
     ecs_sg self' = Some svc_sg \<and>
     sg_ingress lb_sg =
       [\<lparr>ingress_from_port = lb_port (backend_cfg (django_srv_cfg self)),
         ingress_to_port = lb_port (backend_cfg (django_srv_cfg self)),
         ingress_protocol = ''tcp'',
         ingress_cidr_blocks = Some [''0.0.0.0/0''],
         ingress_security_groups = None\<rparr>] \<and>
     sg_egress lb_sg =
       [\<lparr>egress_from_port = 0, egress_to_port = 0, egress_protocol = ''-1'',
         egress_cidr_blocks = [''0.0.0.0/0'']\<rparr>] \<and>
     sg_ingress svc_sg =
       [\<lparr>ingress_from_port = 0, ingress_to_port = 0, ingress_protocol = ''-1'',
         ingress_cidr_blocks = None,
         ingress_security_groups = Some [SecurityGroup_id (sg_resource_name lb_sg)]\<rparr>] \<and>
     sg_egress svc_sg =
       [\<lparr>egress_from_port = 0, egress_to_port = 0, egress_protocol = ''-1'',
         egress_cidr_blocks = [''0.0.0.0/0'']\<rparr>] \<and>
     sg_resource_name svc_sg \<noteq> sg_resource_name lb_sg"
  by (simp add: create_networking_def register_def Let_def)

text \<open>
  Claim C5: the target group that \<^verbatim>\<open>create_networking\<close> declares (and stores in
  \<^verbatim>\<open>self.django_tg\<close>) has the health check path /ping/, healthy threshold 5, unhealthy
  threshold 2, timeout 2, interval 5 and matcher 200, whatever the configuration holds.
\<close>

theorem health_check_fixed:
  "\<exists>lb_sg svc_sg b g l self'.
     create_networking self eng =
       (self', eng @ [Res_SecurityGroup lb_sg, Res_SecurityGroup svc_sg, Res_LoadBalancer b,
                      Res_TargetGroup g, Res_Listener l]) \<and>
     django_tg self' = Some g \<and>
     tg_health_check g =
       \<lparr>hc_path = ''/ping/'', hc_port = ''traffic-port'', hc_healthy_threshold = 5,
        hc_unhealthy_threshold = 2, hc_timeout = 2, hc_interval = 5, hc_matcher = ''200''\<rparr>"
  by (simp add: create_networking_def register_def Let_def)

text \<open>
  Claim C6: the listener that \<^verbatim>\<open>create_networking\<close> declares listens on \<^verbatim>\<open>lb_port\<close> of
  the load balancer declared with it, and has exactly one default action, a forward to
  the target group declared in the same call, which is the only target group declared.
\<close>

theorem listener_forwards:
  "\<exists>lb_sg svc_sg b g l self'.
     create_networking self eng =
       (self', eng @ [Res_SecurityGroup lb_sg, Res_SecurityGroup svc_sg, Res_LoadBalancer b,
                      Res_TargetGroup g, Res_Listener l]) \<and>
     django_tg self' = Some g \<and>
     listener_port l = lb_port (backend_cfg (django_srv_cfg self)) \<and>
     listener_load_balancer_arn l = LoadBalancer_arn (lb_resource_name b) \<and>
     listener_default_actions l =
       [\<lparr>action_type = ''forward'',
         action_target_group_arn = TargetGroup_arn (tg_resource_name g)\<rparr>]"
  by (simp add: create_networking_def register_def Let_def)

section \<open>The container definitions\<close>

lemma template_resolved:
  "iu res = Some i \<Longrightarrow> lg res = Some l \<Longrightarrow> h res = Some d \<Longrightarrow>
   container_definitions_template iu lg h sn cp res =
     Some (container_definitions_lambda sn cp
       \<lparr>args_image_uri = i, args_log_group_name = l, args_host = d\<rparr>)"
  by (simp add: container_definitions_template_def Output_apply_def Output_all_def)



text \<open>
  The same input, rendered: the text is what \<^verbatim>\<open>json.dumps\<close> prints for it.
\<close>

lemma rendered_example:
  "container_definitions_template
     (output_of (External ''image:django_app:0.0.1''))
     (output_of (LogGroup_name ''django_app-log-group''))
     (output_of (External ''db-host'')) ''django_app'' 8000 all_resolved =
   Some (''[{\"name\": \"django_app\", \"image\": \"registry/django_app:0.0.1\", '' @
      ''\"essential\": true, \"cpu\": 10, \"memory\": 512, '' @
      ''\"portMappings\": [{\"containerPort\": 8000, \"protocol\": \"tcp\"}], '' @
      ''\"command\": [\"django_app\", \"8000\"], '' @
      ''\"environment\": [{\"name\": \"ENVIRONMENT\", \"value\": \"PROD\"}, '' @
      ''{\"name\": \"DB_HOST\", \"value\": \"db.internal\"}], '' @
      ''\"logConfiguration\": {\"logDriver\": \"awslogs\", '' @
      ''\"options\": {\"awslogs-group\": \"/ecs/django_app\", '' @
      ''\"awslogs-region\": \"eu-west-1\", '' @
      ''\"awslogs-stream-prefix\": \"django_app-log-stream\"}}}]'')"
  by (simp add: container_definitions_template_def Output_apply_def Output_all_def
      container_definitions_lambda_def output_of_def all_resolved_def
      encode_basestring_ascii_def escape_char_def str_def str_nat_small str_nat_large hexdigit_def)

text \<open>
  Claim C4: the container definitions are a join. While the image reference or the
  data-store host is not assigned, the deferred value is absent; it is absent exactly when
  one of the three values it joins (the two and the log group's name) is not assigned, so
  it is present as soon as all of them are.
\<close>

theorem join_semantics:
  "(iu res = None \<or> h res = None \<longrightarrow>
      container_definitions_template iu lg h sn cp res = None) \<and>
   (container_definitions_template iu lg h sn cp res = None) =
      (iu res = None \<or> lg res = None \<or> h res = None)"
  by (simp add: container_definitions_template_def Output_apply_def Output_all_def
      split: option.splits)

theorem join_semantics_witness:
  "output_of (External ''image:django_app:0.0.1'') image_only =
     Some ''registry/django_app:0.0.1'' \<and>
   output_of (External ''db-host'') image_only = None \<and>
   container_definitions_template
     (output_of (External ''image:django_app:0.0.1''))
     (output_of (LogGroup_name ''django_app-log-group''))
     (output_of (External ''db-host'')) ''django_app'' 8000 image_only = None"
  using join_semantics [of "output_of (External ''image:django_app:0.0.1'')" image_only
      "output_of (External ''db-host'')" "output_of (LogGroup_name ''django_app-log-group'')"
      "''django_app''" 8000]
  by (simp add: output_of_def image_only_def)

section \<open>The runtime unit\<close>

text \<open>
  Claim C7: with both role names in the role mapping, the assembler raises nothing and
  makes thirteen declarations, the last two being the task definition and the service.
  The task definition requires FARGATE, has network mode awsvpc, CPU and memory of the
  configuration, the two roles' ARNs and the deferred container definitions. The service
  has the desired count of the configuration, runs the task definition on the cluster
  declared with it, is attached to the private subnets and to the service security group
  with a public IP, and is bound to the target group on the container port.
\<close>

theorem runtime_unit:
  assumes "r ''ecs_execution_role'' = Some e" and "r ''ecs_task_role'' = Some t"
  shows "\<exists>lb_sg svc_sg b g l d p i lgr k td s self'.
     ECSService_init col n c r eng =
       (Inr self', eng @ [Res_SecurityGroup lb_sg, Res_SecurityGroup svc_sg, Res_LoadBalancer b,
          Res_TargetGroup g, Res_Listener l, Res_RDS d, Res_Repository p, Res_Image i,
          Call_push_image i ''0.0.1'', Res_LogGroup lgr, Res_Cluster k,
          Res_TaskDefinition td, Res_Service s]) \<and>
     ecs_sg self' = Some svc_sg \<and> django_tg self' = Some g \<and> db self' = Some d \<and>
     td_requires_compatibilities td = [''FARGATE''] \<and>
     td_network_mode td = ''awsvpc'' \<and>
     td_cpu td = cpu (backend_cfg c) \<and>
     td_memory td = memory (backend_cfg c) \<and>
     td_execution_role_arn td = Role_arn (role_resource_name e) \<and>
     td_task_role_arn td = Role_arn (role_resource_name t) \<and>
     td_container_definitions td =
       container_definitions_template (push_image col i ''0.0.1'')
         (output_of (LogGroup_name (lg_resource_name lgr))) (get_host col d)
         (service_name c) (container_port (backend_cfg c)) \<and>
     svc_cluster s = Cluster_id (cluster_resource_name k) \<and>
     svc_task_definition s = TaskDefinition_arn (td_resource_name td) \<and>
     svc_launch_type s = ''FARGATE'' \<and>
     svc_desired_count s = desired_count (backend_cfg c) \<and>
     svc_network_configuration s =
       \<lparr>nc_subnets = get_subnet_ids n PRIVATE,
        nc_security_groups = [SecurityGroup_id (sg_resource_name svc_sg)],
        nc_assign_public_ip = True\<rparr> \<and>
     svc_load_balancers s =
       [\<lparr>slb_target_group_arn = TargetGroup_arn (tg_resource_name g),
         slb_container_name = service_name c,
         slb_container_port = container_port (backend_cfg c)\<rparr>]"
  using assms by (simp add: assembler_defs)

theorem runtime_unit_witness:
  "example_roles ''ecs_execution_role'' = Some \<lparr>role_resource_name = ''execution-role''\<rparr> \<and>
   example_roles ''ecs_task_role'' = Some \<lparr>role_resource_name = ''task-role''\<rparr> \<and>
   (\<exists>lb_sg svc_sg b g l d p i lgr k td s self'.
     ECSService_init example_collaborators example_networking example_cfg example_roles [] =
       (Inr self', [Res_SecurityGroup lb_sg, Res_SecurityGroup svc_sg, Res_LoadBalancer b,
          Res_TargetGroup g, Res_Listener l, Res_RDS d, Res_Repository p, Res_Image i,
          Call_push_image i ''0.0.1'', Res_LogGroup lgr, Res_Cluster k,
          Res_TaskDefinition td, Res_Service s]) \<and>
     td_requires_compatibilities td = [''FARGATE''] \<and>
     td_network_mode td = ''awsvpc'' \<and>
     td_cpu td = 256 \<and>
     td_memory td = 512 \<and>
     td_execution_role_arn td = Role_arn ''execution-role'' \<and>
     td_task_role_arn td = Role_arn ''task-role'' \<and>
     svc_desired_count s = 2 \<and>
     nc_subnets (svc_network_configuration s) = [''subnet-c''] \<and>
     nc_assign_public_ip (svc_network_configuration s) \<and>
     map slb_container_port (svc_load_balancers s) = [8000])"
proof -
  have "\<exists>lb_sg svc_sg b g l d p i lgr k td s self'.
     ECSService_init example_collaborators example_networking example_cfg example_roles [] =
       (Inr self', [Res_SecurityGroup lb_sg, Res_SecurityGroup svc_sg, Res_LoadBalancer b,
          Res_TargetGroup g, Res_Listener l, Res_RDS d, Res_Repository p, Res_Image i,
          Call_push_image i ''0.0.1'', Res_LogGroup lgr, Res_Cluster k,
          Res_TaskDefinition td, Res_Service s]) \<and>
     td_requires_compatibilities td = [''FARGATE''] \<and>
     td_network_mode td = ''awsvpc'' \<and>
     td_cpu td = 256 \<and>
     td_memory td = 512 \<and>
     td_execution_role_arn td = Role_arn ''execution-role'' \<and>
     td_task_role_arn td = Role_arn ''task-role'' \<and>
     svc_desired_count s = 2 \<and>
     nc_subnets (svc_network_configuration s) = [''subnet-c''] \<and>
     nc_assign_public_ip (svc_network_configuration s) \<and>
     map slb_container_port (svc_load_balancers s) = [8000]"
    using runtime_unit [OF example_roles_execution example_roles_task,
        of example_collaborators example_networking example_cfg "[]", unfolded append_Nil]
    apply (elim exE conjE)
    apply (intro exI conjI)
    apply assumption
    apply (simp_all add: example_cfg_def example_networking_def)
    done
  with example_roles_execution example_roles_task show ?thesis
    by (intro conjI)
qed

section \<open>Running the assembler again\<close>

text \<open>
  Claim C8: two runs of the assembler on the same collaborators, networking handles,
  configuration and roles, from any two states of the engine, return the same object and
  append the same sequence of declarations: the same resources in the same order, with
  the same names and field values. Identifiers the provider assigns never occur in a
  declaration: a declaration refers to them as pending, and the container definitions are
  a function of what the engine assigns.
\<close>

theorem assembly_repeatable:
  "fst (ECSService_init col n c r eng1) = fst (ECSService_init col n c r eng2) \<and>
   (\<exists>graph. snd (ECSService_init col n c r eng1) = eng1 @ graph \<and>
            snd (ECSService_init col n c r eng2) = eng2 @ graph)"
proof -
  have 1: "ECSService_init col n c r eng1 =
      (fst (ECSService_init col n c r []), eng1 @ snd (ECSService_init col n c r []))"
    by (rule init_appends)
  have 2: "ECSService_init col n c r eng2 =
      (fst (ECSService_init col n c r []), eng2 @ snd (ECSService_init col n c r []))"
    by (rule init_appends)
  show ?thesis
    unfolding 1 2 by simp
qed

section \<open>Names\<close>

lemma networking_names_init:
  assumes "r ''ecs_execution_role'' = Some e" and "r ''ecs_task_role'' = Some t"
  shows "concat (map networking_names (snd (ECSService_init col n c r []))) =
     map (\<lambda>suffix. str_replace CHR ''_'' CHR ''-'' (service_name c) @ suffix)
       [''-lb-sg'', ''-lb-sg'', ''-lb-sg'', ''-sg'', ''-ecs-sg'', ''-ecs-sg'', ''-lb'', ''-lb'',
        ''-service-tg'', ''-service-tg'', ''-lb-listener'']"
  using assms by (simp add: assembler_defs)

lemma runtime_names_init:
  assumes "r ''ecs_execution_role'' = Some e" and "r ''ecs_task_role'' = Some t"
  shows "concat (map runtime_names (snd (ECSService_init col n c r []))) =
     [service_name c @ ''-repository'', service_name c @ ''-log-group'',
      ''/ecs/'' @ service_name c, service_name c @ ''-cluster'', service_name c @ ''-cluster'',
      service_name c @ ''-tf'', service_name c, service_name c @ ''-service'',
      service_name c @ ''-service'', service_name c]"
  using assms by (simp add: assembler_defs)

lemma template_entry_names:
  assumes "iu res = Some i" and "lg res = Some l" and "h res = Some d"
  shows "\<exists>entry.
     container_definitions_template iu lg h sn cp res = Some (json_dumps (JList [entry])) \<and>
     json_get entry ''name'' = Some (JStr sn) \<and>
     json_get entry ''command'' = Some (JList [JStr sn, JStr (str cp)])"
proof -
  have t: "container_definitions_template iu lg h sn cp res =
      Some (container_definitions_lambda sn cp
        \<lparr>args_image_uri = i, args_log_group_name = l, args_host = d\<rparr>)"
    using assms by (rule template_resolved)
  show ?thesis
    unfolding t container_definitions_lambda_def
    by (rule exI, intro conjI, rule refl) simp_all
qed

lemma complete_run:
  assumes "r ''ecs_execution_role'' = Some e" and "r ''ecs_task_role'' = Some t"
  shows "\<exists>lb_sg svc_sg b g l d p i lgr k td s self'.
     ECSService_init col n c r [] =
       (Inr self', [Res_SecurityGroup lb_sg, Res_SecurityGroup svc_sg, Res_LoadBalancer b,
          Res_TargetGroup g, Res_Listener l, Res_RDS d, Res_Repository p, Res_Image i,
          Call_push_image i ''0.0.1'', Res_LogGroup lgr, Res_Cluster k,
          Res_TaskDefinition td, Res_Service s]) \<and>
     img_name i = service_name c \<and>
     lg_resource_name lgr = service_name c @ ''-log-group'' \<and>
     td_container_definitions td =
       container_definitions_template (push_image col i ''0.0.1'')
         (output_of (LogGroup_name (lg_resource_name lgr))) (get_host col d)
         (service_name c) (container_port (backend_cfg c))"
  using assms by (simp add: assembler_defs)


lemma str_8000: "str 8000 = ''8000''"
  by (simp add: str_def str_nat_small str_nat_large hexdigit_def)


text \<open>
  Claim C9: in a complete run, every name of a networking resource (security groups, load
  balancer, target group, listener) is the service name with each underscore replaced by
  a hyphen, followed by a fixed suffix; every name of a runtime-unit resource (repository,
  log group, cluster, task definition, service) and the container name of the service's
  binding hold the service name as it is. The image and the log group are named from the
  service name as it is, and whenever the container definitions of the declared task
  definition are rendered, the entry's name and the first word of its command are the
  service name as it is. When the service name has an underscore, the replaced name
  differs from it and no name of the first family is a name of the second.
\<close>

theorem name_families:
  assumes "r ''ecs_execution_role'' = Some e" and "r ''ecs_task_role'' = Some t"
  shows "concat (map networking_names (snd (ECSService_init col n c r []))) =
     map (\<lambda>suffix. str_replace CHR ''_'' CHR ''-'' (service_name c) @ suffix)
       [''-lb-sg'', ''-lb-sg'', ''-lb-sg'', ''-sg'', ''-ecs-sg'', ''-ecs-sg'', ''-lb'', ''-lb'',
        ''-service-tg'', ''-service-tg'', ''-lb-listener''] \<and>
   concat (map runtime_names (snd (ECSService_init col n c r []))) =
     [service_name c @ ''-repository'', service_name c @ ''-log-group'',
      ''/ecs/'' @ service_name c, service_name c @ ''-cluster'', service_name c @ ''-cluster'',
      service_name c @ ''-tf'', service_name c, service_name c @ ''-service'',
      service_name c @ ''-service'', service_name c] \<and>
   (\<exists>lb_sg svc_sg b g l d p i lgr k td s self'.
      ECSService_init col n c r [] =
        (Inr self', [Res_SecurityGroup lb_sg, Res_SecurityGroup svc_sg, Res_LoadBalancer b,
           Res_TargetGroup g, Res_Listener l, Res_RDS d, Res_Repository p, Res_Image i,
           Call_push_image i ''0.0.1'', Res_LogGroup lgr, Res_Cluster k,
           Res_TaskDefinition td, Res_Service s]) \<and>
      img_name i = service_name c \<and>
      lg_resource_name lgr = service_name c @ ''-log-group'' \<and>
      (\<forall>res u v w.
         push_image col i ''0.0.1'' res = Some u \<longrightarrow>
         output_of (LogGroup_name (lg_resource_name lgr)) res = Some v \<longrightarrow>
         get_host col d res = Some w \<longrightarrow>
         (\<exists>entry.
            td_container_definitions td res = Some (json_dumps (JList [entry])) \<and>
            json_get entry ''name'' = Some (JStr (service_name c)) \<and>
            json_get entry ''command'' =
              Some (JList [JStr (service_name c),
                           JStr (str (container_port (backend_cfg c)))])))) \<and>
   (CHR ''_'' \<in> set (service_name c) \<longrightarrow>
      str_replace CHR ''_'' CHR ''-'' (service_name c) \<noteq> service_name c \<and>
      set (concat (map networking_names (snd (ECSService_init col n c r [])))) \<inter>
      set (concat (map runtime_names (snd (ECSService_init col n c r [])))) = {})"
proof -
  let ?N = "str_replace CHR ''_'' CHR ''-'' (service_name c)"
  let ?nn = "concat (map networking_names (snd (ECSService_init col n c r [])))"
  let ?rn = "concat (map runtime_names (snd (ECSService_init col n c r [])))"
  note nn = networking_names_init [OF assms, of col n c]
  note rn = runtime_names_init [OF assms, of col n c]
  have clean: "CHR ''_'' \<notin> set ?N"
    by (rule str_replace_removes) simp
  from complete_run [OF assms, of col n c]
  obtain lb_sg svc_sg b g l d p i lgr k td s self' where
    run: "ECSService_init col n c r [] =
       (Inr self', [Res_SecurityGroup lb_sg, Res_SecurityGroup svc_sg, Res_LoadBalancer b,
          Res_TargetGroup g, Res_Listener l, Res_RDS d, Res_Repository p, Res_Image i,
          Call_push_image i ''0.0.1'', Res_LogGroup lgr, Res_Cluster k,
          Res_TaskDefinition td, Res_Service s])"
    and img: "img_name i = service_name c"
    and lgn: "lg_resource_name lgr = service_name c @ ''-log-group''"
    and td: "td_container_definitions td =
       container_definitions_template (push_image col i ''0.0.1'')
         (output_of (LogGroup_name (lg_resource_name lgr))) (get_host col d)
         (service_name c) (container_port (backend_cfg c))"
    by blast
  have entry: "\<forall>res u v w.
         push_image col i ''0.0.1'' res = Some u \<longrightarrow>
         output_of (LogGroup_name (lg_resource_name lgr)) res = Some v \<longrightarrow>
         get_host col d res = Some w \<longrightarrow>
         (\<exists>entry.
            td_container_definitions td res = Some (json_dumps (JList [entry])) \<and>
            json_get entry ''name'' = Some (JStr (service_name c)) \<and>
            json_get entry ''command'' =
              Some (JList [JStr (service_name c),
                           JStr (str (container_port (backend_cfg c)))]))"
  proof (intro allI impI)
    fix res u v w
    assume 1: "push_image col i ''0.0.1'' res = Some u"
      and 2: "output_of (LogGroup_name (lg_resource_name lgr)) res = Some v"
      and 3: "get_host col d res = Some w"
    show "\<exists>entry.
            td_container_definitions td res = Some (json_dumps (JList [entry])) \<and>
            json_get entry ''name'' = Some (JStr (service_name c)) \<and>
            json_get entry ''command'' =
              Some (JList [JStr (service_name c),
                           JStr (str (container_port (backend_cfg c)))])"
      unfolding td
      by (rule template_entry_names
          [where iu = "push_image col i ''0.0.1''" and res = res
             and lg = "output_of (LogGroup_name (lg_resource_name lgr))"
             and h = "get_host col d", OF 1 2 3])
  qed
  have block: "\<exists>lb_sg svc_sg b g l d p i lgr k td s self'.
      ECSService_init col n c r [] =
        (Inr self', [Res_SecurityGroup lb_sg, Res_SecurityGroup svc_sg, Res_LoadBalancer b,
           Res_TargetGroup g, Res_Listener l, Res_RDS d, Res_Repository p, Res_Image i,
           Call_push_image i ''0.0.1'', Res_LogGroup lgr, Res_Cluster k,
           Res_TaskDefinition td, Res_Service s]) \<and>
      img_name i = service_name c \<and>
      lg_resource_name lgr = service_name c @ ''-log-group'' \<and>
      (\<forall>res u v w.
         push_image col i ''0.0.1'' res = Some u \<longrightarrow>
         output_of (LogGroup_name (lg_resource_name lgr)) res = Some v \<longrightarrow>
         get_host col d res = Some w \<longrightarrow>
         (\<exists>entry.
            td_container_definitions td res = Some (json_dumps (JList [entry])) \<and>
            json_get entry ''name'' = Some (JStr (service_name c)) \<and>
            json_get entry ''command'' =
              Some (JList [JStr (service_name c),
                           JStr (str (container_port (backend_cfg c)))])))"
    apply (intro exI conjI)
       apply (rule run)
      apply (rule img)
     apply (rule lgn)
    apply (rule entry)
    done
  have differ: "CHR ''_'' \<in> set (service_name c) \<longrightarrow>
      ?N \<noteq> service_name c \<and> set ?nn \<inter> set ?rn = {}"
  proof (intro impI conjI)
    assume u: "CHR ''_'' \<in> set (service_name c)"
    show "?N \<noteq> service_name c"
      using clean u by auto
    have a: "\<forall>x \<in> set ?nn. CHR ''_'' \<notin> set x"
      unfolding nn using clean by simp
    have b: "\<forall>y \<in> set ?rn. CHR ''_'' \<in> set y"
      unfolding rn using u by simp
    show "set ?nn \<inter> set ?rn = {}"
      using a b by blast
  qed
  show ?thesis
    apply (intro conjI)
       apply (rule nn)
      apply (rule rn)
     apply (rule block)
    apply (rule differ)
    done
qed


theorem name_families_witness:
  "example_roles ''ecs_execution_role'' = Some \<lparr>role_resource_name = ''execution-role''\<rparr> \<and>
   example_roles ''ecs_task_role'' = Some \<lparr>role_resource_name = ''task-role''\<rparr> \<and>
   CHR ''_'' \<in> set (service_name example_cfg) \<and>
   str_replace CHR ''_'' CHR ''-'' (service_name example_cfg) = ''django-app'' \<and>
   str_replace CHR ''_'' CHR ''-'' (service_name example_cfg) \<noteq> service_name example_cfg \<and>
   set (concat (map networking_names
     (snd (ECSService_init example_collaborators example_networking example_cfg
        example_roles [])))) \<inter>
   set (concat (map runtime_names
     (snd (ECSService_init example_collaborators example_networking example_cfg
        example_roles [])))) = {} \<and>
   (\<exists>td entry.
      Res_TaskDefinition td \<in> set (snd (ECSService_init example_collaborators
        example_networking example_cfg example_roles [])) \<and>
      td_container_definitions td all_resolved = Some (json_dumps (JList [entry])) \<and>
      json_get entry ''name'' = Some (JStr ''django_app'') \<and>
      json_get entry ''command'' = Some (JList [JStr ''django_app'', JStr ''8000'']))"
proof -
  note fam = name_families [OF example_roles_execution example_roles_task,
      of example_collaborators example_networking example_cfg]
  have u: "CHR ''_'' \<in> set (service_name example_cfg)"
    by (simp add: example_cfg_def)
  have v: "str_replace CHR ''_'' CHR ''-'' (service_name example_cfg) = ''django-app''"
    by (simp add: example_cfg_def str_replace_def)
  have sn: "service_name example_cfg = ''django_app''"
    by (simp add: example_cfg_def)
  have cp: "container_port (backend_cfg example_cfg) = 8000"
    by (simp add: example_cfg_def)
  note differ = fam [THEN conjunct2, THEN conjunct2, THEN conjunct2, THEN mp, OF u]
  from fam [THEN conjunct2, THEN conjunct2, THEN conjunct1]
  obtain lb_sg svc_sg b g l d p i lgr k td s self' where
    run: "ECSService_init example_collaborators example_networking example_cfg example_roles [] =
       (Inr self', [Res_SecurityGroup lb_sg, Res_SecurityGroup svc_sg, Res_LoadBalancer b,
          Res_TargetGroup g, Res_Listener l, Res_RDS d, Res_Repository p, Res_Image i,
          Call_push_image i ''0.0.1'', Res_LogGroup lgr, Res_Cluster k,
          Res_TaskDefinition td, Res_Service s])"
    and img: "img_name i = service_name example_cfg"
    and lgn: "lg_resource_name lgr = service_name example_cfg @ ''-log-group''"
    and entry: "\<forall>res u v w.
         push_image example_collaborators i ''0.0.1'' res = Some u \<longrightarrow>
         output_of (LogGroup_name (lg_resource_name lgr)) res = Some v \<longrightarrow>
         get_host example_collaborators d res = Some w \<longrightarrow>
         (\<exists>entry.
            td_container_definitions td res = Some (json_dumps (JList [entry])) \<and>
            json_get entry ''name'' = Some (JStr (service_name example_cfg)) \<and>
            json_get entry ''command'' =
              Some (JList [JStr (service_name example_cfg),
                           JStr (str (container_port (backend_cfg example_cfg)))]))"
    by blast
  have 1: "push_image example_collaborators i ''0.0.1'' all_resolved =
      Some ''registry/django_app:0.0.1''"
    using all_resolved_image by (simp add: example_collaborators_def img sn)
  have 2: "output_of (LogGroup_name (lg_resource_name lgr)) all_resolved = Some ''/ecs/django_app''"
    using all_resolved_log_group by (simp add: lgn sn)
  have 3: "get_host example_collaborators d all_resolved = Some ''db.internal''"
    using all_resolved_host by (simp add: example_collaborators_def)
  from entry 1 2 3 obtain entry where
    e1: "td_container_definitions td all_resolved = Some (json_dumps (JList [entry]))"
    and e2: "json_get entry ''name'' = Some (JStr (service_name example_cfg))"
    and e3: "json_get entry ''command'' =
              Some (JList [JStr (service_name example_cfg),
                           JStr (str (container_port (backend_cfg example_cfg)))])"
    by blast
  have mem: "Res_TaskDefinition td \<in> set (snd (ECSService_init example_collaborators
        example_networking example_cfg example_roles []))"
    unfolding run by simp
  have last: "\<exists>td entry.
      Res_TaskDefinition td \<in> set (snd (ECSService_init example_collaborators
        example_networking example_cfg example_roles [])) \<and>
      td_container_definitions td all_resolved = Some (json_dumps (JList [entry])) \<and>
      json_get entry ''name'' = Some (JStr ''django_app'') \<and>
      json_get entry ''command'' = Some (JList [JStr ''django_app'', JStr ''8000''])"
    apply (intro exI conjI)
       apply (rule mem)
      apply (rule e1)
     apply (rule e2 [unfolded sn])
    apply (rule e3 [unfolded sn cp str_8000])
    done
  show ?thesis
    apply (intro conjI)
          apply (rule example_roles_execution)
         apply (rule example_roles_task)
        apply (rule u)
       apply (rule v)
      apply (rule differ [THEN conjunct1])
     apply (rule differ [THEN conjunct2])
    apply (rule last)
    done
qed

section \<open>The image version\<close>

text \<open>
  Claim C10: in every run, whatever the configuration, the roles and the collaborators,
  the assembler calls \<^verbatim>\<open>push_image\<close> once, with the version tag 0.0.1.
\<close>

theorem version_tag_fixed:
  "concat (map pushed_versions (snd (ECSService_init col n c r eng))) =
     concat (map pushed_versions eng) @ [''0.0.1'']"
proof (cases "r ''ecs_execution_role''")
  case None
  then show ?thesis by (simp add: assembler_defs)
next
  case (Some e)
  show ?thesis
  proof (cases "r ''ecs_task_role''")
    case None
    with Some show ?thesis by (simp add: assembler_defs)
  next
    case (Some t)
    with \<open>r ''ecs_execution_role'' = Some e\<close> show ?thesis by (simp add: assembler_defs)
  qed
qed

end
